theory Spec2Isabelle
  imports
    Complex_Main
    "HOL-Library.Char_ord"
    "HOL-Library.List_Lexorder"
    "HOL-Library.Product_Lexorder"
    "HOL-Library.Sublist"
begin

section \<open>Exceptions\<close>

text \<open>
  The exceptions that the modelled code raises or lets through. The four database
  classes are the \<^verbatim>\<open>psycopg\<close> exception classes that the repositories name in their
  \<^verbatim>\<open>except\<close> clauses; \<open>HTTPException status detail\<close> is the FastAPI exception
  that the handlers of \<^verbatim>\<open>main.py\<close> raise.
\<close>

datatype error =
    AttributeError
  | ValidationError
  | ZeroDivisionError
  | OSError
  | OperationalError
  | DataError
  | IntegrityError
  | ProgrammingError
  | HTTPException int string

section \<open>The database server\<close>

text \<open>
  The text-search, trigram and edit-distance functions belong to the database server and
  are not part of the repository. They are parameters of the model: every theorem below
  holds for every choice of them. Similarities and ranks are floating-point numbers in
  PostgreSQL; only their order is used, so they are rationals here.
  \<^item> \<open>ts_match v q\<close> is \<^verbatim>\<open>v @@ plainto_tsquery('english', q)\<close>;
  \<^item> \<open>ts_rank_cd v q\<close> is \<^verbatim>\<open>ts_rank_cd(v, plainto_tsquery('english', q))\<close>;
  \<^item> \<open>ilike s pat\<close> is \<^verbatim>\<open>s ILIKE pat\<close>.
\<close>

type_synonym tsvector = "string list"

record pg =
  ts_match :: "tsvector \<Rightarrow> string \<Rightarrow> bool"
  ts_rank_cd :: "tsvector \<Rightarrow> string \<Rightarrow> rat"
  similarity :: "string \<Rightarrow> string \<Rightarrow> rat"
  levenshtein :: "string \<Rightarrow> string \<Rightarrow> int"
  lower :: "string \<Rightarrow> string"
  ilike :: "string \<Rightarrow> string \<Rightarrow> bool"

text \<open>
  A row of the table \<^verbatim>\<open>formulas\<close>, with the columns the statements name. The
  description is optional (\<^verbatim>\<open>Optional[str]\<close> in \<^verbatim>\<open>FormulaAttributes\<close>), so the
  column may hold NULL. The \<^verbatim>\<open>jsonb\<close> column \<^verbatim>\<open>ingredients\<close> holds an object from
  ingredient identifier to percentage.
\<close>

record formula_row =
  col_id :: string
  col_name :: string
  col_description :: "string option"
  col_ingredients :: "(string \<times> rat) list"
  col_mass :: rat
  col_search_vector :: tsvector

record ingredient_row =
  ing_id :: string
  ing_name :: string
  ing_unit :: string
  ing_cost_per_unit :: rat
  ing_density :: "rat option"

record database =
  ingredients_table :: "ingredient_row list"
  formulas_table :: "formula_row list"

section \<open>Statements and their parameters\<close>

text \<open>
  A parameter passed to \<^verbatim>\<open>cur.execute\<close>: a Python \<^verbatim>\<open>str\<close>, \<^verbatim>\<open>float\<close> or
  \<^verbatim>\<open>int\<close>.
\<close>

datatype sqlval = Text string | Float rat | Integer int

text \<open>
  The four statements that \<^verbatim>\<open>build_search_query\<close> and \<^verbatim>\<open>build_count_query\<close> of
  \<^verbatim>\<open>main.py\<close> return, and their texts as written there (line breaks and indentation
  written as single spaces).
\<close>

datatype statement = FuzzySearchSQL | PlainSearchSQL | FuzzyCountSQL | PlainCountSQL

fun sql_text :: "statement \<Rightarrow> string" where
  "sql_text FuzzySearchSQL =
     ''SELECT id, name, description, ingredients, mass, GREATEST( ts_rank_cd(search_vector, plainto_tsquery('english', %s)), similarity(name, %s), similarity(description, %s) ) as rank FROM formulas WHERE search_vector @@ plainto_tsquery('english', %s) OR similarity(name, %s) > %s OR similarity(description, %s) > %s OR levenshtein(lower(name), lower(%s)) <= %s OR levenshtein(lower(description), lower(%s)) <= %s ORDER BY rank DESC LIMIT %s OFFSET %s''"
| "sql_text PlainSearchSQL =
     ''SELECT id, name, description, ingredients, mass, ts_rank_cd(search_vector, plainto_tsquery('english', %s)) as rank FROM formulas WHERE search_vector @@ plainto_tsquery('english', %s) ORDER BY rank DESC LIMIT %s OFFSET %s''"
| "sql_text FuzzyCountSQL =
     ''SELECT COUNT(*) FROM formulas WHERE search_vector @@ plainto_tsquery('english', %s) OR similarity(name, %s) > %s OR similarity(description, %s) > %s OR levenshtein(lower(name), lower(%s)) <= %s OR levenshtein(lower(description), lower(%s)) <= %s''"
| "sql_text PlainCountSQL =
     ''SELECT COUNT(*) FROM formulas WHERE search_vector @@ plainto_tsquery('english', %s)''"

text \<open>
  The number of positional placeholders of a statement text: \<^verbatim>\<open>%s\<close> is a
  placeholder; any other character after \<^verbatim>\<open>%\<close> (as in the literal \<^verbatim>\<open>%%\<close>) is
  skipped with it.
\<close>

fun count_placeholders :: "string \<Rightarrow> nat" where
  "count_placeholders (c # d # cs) =
     (if c = CHR ''%'' then
        (if d = CHR ''s'' then Suc (count_placeholders cs) else count_placeholders cs)
      else count_placeholders (d # cs))"
| "count_placeholders cs = 0"

section \<open>What the statements select\<close>

text \<open>The rows satisfying \<^verbatim>\<open>WHERE search_vector @@ plainto_tsquery('english', q)\<close>.\<close>

definition matching_rows :: "pg \<Rightarrow> formula_row list \<Rightarrow> string \<Rightarrow> formula_row list" where
  "matching_rows srv tbl q = filter (\<lambda>r. ts_match srv (col_search_vector r) q) tbl"

text \<open>
  The \<^verbatim>\<open>WHERE\<close> clause of the two fuzzy statements, with its nine parameters in the
  order of their placeholders. A comparison with a NULL description is unknown, and a
  disjunction is true exactly when one of its disjuncts is true, so an unknown disjunct
  counts as false.
\<close>

definition fuzzy_where ::
  "pg \<Rightarrow> string \<Rightarrow> string \<Rightarrow> rat \<Rightarrow> string \<Rightarrow> rat \<Rightarrow> string \<Rightarrow> int \<Rightarrow> string \<Rightarrow> int
     \<Rightarrow> formula_row \<Rightarrow> bool" where
  "fuzzy_where srv q1 q2 t2 q3 t3 q4 d4 q5 d5 r =
     (ts_match srv (col_search_vector r) q1
      \<or> similarity srv (col_name r) q2 > t2
      \<or> (case col_description r of None \<Rightarrow> False
          | Some d \<Rightarrow> similarity srv d q3 > t3)
      \<or> levenshtein srv (lower srv (col_name r)) (lower srv q4) \<le> d4
      \<or> (case col_description r of None \<Rightarrow> False
          | Some d \<Rightarrow> levenshtein srv (lower srv d) (lower srv q5) \<le> d5))"

text \<open>
  The \<^verbatim>\<open>GREATEST(...)\<close> expression of the fuzzy search statement, with its three
  parameters; \<^verbatim>\<open>GREATEST\<close> ignores a NULL argument.
\<close>

definition fuzzy_rank :: "pg \<Rightarrow> string \<Rightarrow> string \<Rightarrow> string \<Rightarrow> formula_row \<Rightarrow> rat" where
  "fuzzy_rank srv q1 q2 q3 r =
     (let base = max (ts_rank_cd srv (col_search_vector r) q1)
                     (similarity srv (col_name r) q2)
      in case col_description r of None \<Rightarrow> base
         | Some d \<Rightarrow> max base (similarity srv d q3))"

text \<open>
  \<^verbatim>\<open>ORDER BY rank DESC\<close>. SQL leaves the order of rows of equal rank open; the model
  takes one such order.
\<close>

definition order_by_rank_desc :: "('a \<times> rat) list \<Rightarrow> ('a \<times> rat) list" where
  "order_by_rank_desc rs = rev (sort_key snd rs)"

text \<open>The largest value of the server's type \<^verbatim>\<open>bigint\<close>, \<open>2\<^sup>6\<^sup>3 - 1\<close>.\<close>

definition bigint_max :: int where
  "bigint_max = 9223372036854775807"

text \<open>
  \<^verbatim>\<open>LIMIT lmt OFFSET ofs\<close>. Both are of type \<^verbatim>\<open>bigint\<close>: the server rejects a
  negative limit or offset, and one beyond the range of the type, with a data exception.
  A Python integer is unbounded, so both cases arise.
\<close>

definition limit_offset :: "int \<Rightarrow> int \<Rightarrow> 'a list \<Rightarrow> error + 'a list" where
  "limit_offset lmt ofs xs =
     (if lmt < 0 \<or> ofs < 0 \<or> bigint_max < lmt \<or> bigint_max < ofs then Inl DataError
      else Inr (take (nat lmt) (drop (nat ofs) xs)))"

datatype resultset = Rows "(formula_row \<times> rat) list" | Count nat

text \<open>
  The server's answer to a statement whose placeholders have been bound, in order, to
  the parameters. A parameter of the wrong type for its place is an error.
\<close>

definition run_statement ::
  "pg \<Rightarrow> formula_row list \<Rightarrow> statement \<Rightarrow> sqlval list \<Rightarrow> error + resultset" where
  "run_statement srv tbl st ps =
     (case st of
        PlainSearchSQL \<Rightarrow>
          (case ps of
             [Text q1, Text q2, Integer lmt, Integer ofs] \<Rightarrow>
               map_sum id Rows
                 (limit_offset lmt ofs
                    (order_by_rank_desc
                       (map (\<lambda>r. (r, ts_rank_cd srv (col_search_vector r) q1))
                          (matching_rows srv tbl q2))))
           | _ \<Rightarrow> Inl ProgrammingError)
      | PlainCountSQL \<Rightarrow>
          (case ps of
             [Text q1] \<Rightarrow> Inr (Count (length (matching_rows srv tbl q1)))
           | _ \<Rightarrow> Inl ProgrammingError)
      | FuzzySearchSQL \<Rightarrow>
          (case ps of
             [Text r1, Text r2, Text r3,
              Text q1, Text q2, Float t2, Text q3, Float t3,
              Text q4, Integer d4, Text q5, Integer d5,
              Integer lmt, Integer ofs] \<Rightarrow>
               map_sum id Rows
                 (limit_offset lmt ofs
                    (order_by_rank_desc
                       (map (\<lambda>r. (r, fuzzy_rank srv r1 r2 r3 r))
                          (filter (fuzzy_where srv q1 q2 t2 q3 t3 q4 d4 q5 d5) tbl))))
           | _ \<Rightarrow> Inl ProgrammingError)
      | FuzzyCountSQL \<Rightarrow>
          (case ps of
             [Text q1, Text q2, Float t2, Text q3, Float t3,
              Text q4, Integer d4, Text q5, Integer d5] \<Rightarrow>
               Inr (Count (length (filter (fuzzy_where srv q1 q2 t2 q3 t3 q4 d4 q5 d5) tbl)))
           | _ \<Rightarrow> Inl ProgrammingError))"

text \<open>
  \<^verbatim>\<open>cur.execute(query, params)\<close>: the driver first checks that the statement has as
  many placeholders as parameters were passed and raises \<^verbatim>\<open>ProgrammingError\<close>
  otherwise; nothing reaches the server then.
\<close>

definition cur_execute ::
  "pg \<Rightarrow> formula_row list \<Rightarrow> statement \<times> sqlval list \<Rightarrow> error + resultset" where
  "cur_execute srv tbl qp =
     (if count_placeholders (sql_text (fst qp)) \<noteq> length (snd qp) then Inl ProgrammingError
      else run_statement srv tbl (fst qp) (snd qp))"

section \<open>Search parameters\<close>

text \<open>
  An attribute of a Python object: reading an attribute the object does not have raises
  \<^verbatim>\<open>AttributeError\<close>.
\<close>

datatype 'a attr = Missing | Attr 'a

text \<open>
  The fuzzy configuration that \<^verbatim>\<open>build_search_query\<close> reads through
  \<^verbatim>\<open>params.fuzzy.similarity_threshold\<close> and \<^verbatim>\<open>params.fuzzy.max_distance\<close>. No
  class of the repository declares it; its two fields are the ones the code reads.
\<close>

record FuzzyConfig =
  similarity_threshold :: rat
  max_distance :: int

text \<open>
  The object that the search functions receive as \<^verbatim>\<open>params\<close>. The class
  \<^verbatim>\<open>SearchParams\<close> of \<^verbatim>\<open>schemas.py\<close> declares \<^verbatim>\<open>q\<close>, \<^verbatim>\<open>page\<close>,
  \<^verbatim>\<open>size\<close> and \<^verbatim>\<open>include\<close> and nothing else; the functions also read
  \<^verbatim>\<open>params.fuzzy\<close>, which is \<open>Missing\<close> on every instance of that class and
  present only on an object of another type that a caller may pass.
\<close>

record params =
  sp_q :: string
  sp_page :: int
  sp_size :: int
  sp_include :: "string option"
  sp_fuzzy :: "FuzzyConfig option attr"

text \<open>
  Construction of a \<^verbatim>\<open>SearchParams\<close>: \<^verbatim>\<open>q: str\<close> is required,
  \<^verbatim>\<open>page = Field(1, ge=1)\<close>, \<^verbatim>\<open>size = Field(10, ge=1, le=100)\<close>. The empty string
  is a \<^verbatim>\<open>str\<close> and is accepted.
\<close>

definition SearchParams ::
  "string option \<Rightarrow> int \<Rightarrow> int \<Rightarrow> string option \<Rightarrow> error + params" where
  "SearchParams q page sz include =
     (case q of
        None \<Rightarrow> Inl ValidationError
      | Some s \<Rightarrow>
          if page < 1 then Inl ValidationError
          else if sz < 1 \<or> 100 < sz then Inl ValidationError
          else Inr \<lparr>sp_q = s, sp_page = page, sp_size = sz, sp_include = include,
                    sp_fuzzy = Missing\<rparr>)"

text \<open>\<^verbatim>\<open>params.fuzzy\<close>\<close>

definition get_fuzzy :: "params \<Rightarrow> error + FuzzyConfig option" where
  "get_fuzzy p = (case sp_fuzzy p of Missing \<Rightarrow> Inl AttributeError | Attr v \<Rightarrow> Inr v)"

text \<open>
  \<^verbatim>\<open>params.fuzzy.similarity_threshold\<close> and \<^verbatim>\<open>params.fuzzy.max_distance\<close>: the
  attribute of \<^verbatim>\<open>None\<close> does not exist either.
\<close>

definition get_fuzzy_config :: "params \<Rightarrow> error + FuzzyConfig" where
  "get_fuzzy_config p =
     (case sp_fuzzy p of
        Missing \<Rightarrow> Inl AttributeError
      | Attr None \<Rightarrow> Inl AttributeError
      | Attr (Some fz) \<Rightarrow> Inr fz)"

section \<open>The query builders of main.py\<close>

definition build_search_query :: "params \<Rightarrow> bool \<Rightarrow> error + statement \<times> sqlval list" where
  "build_search_query p is_fuzzy =
     (if is_fuzzy then
        (case get_fuzzy_config p of
           Inl e \<Rightarrow> Inl e
         | Inr fz \<Rightarrow>
             Inr (FuzzySearchSQL,
               [Text (sp_q p), Text (sp_q p), Text (sp_q p),
                Text (sp_q p), Text (sp_q p),
                Text (sp_q p), Float (similarity_threshold fz),
                Text (sp_q p), Float (similarity_threshold fz),
                Text (sp_q p), Integer (max_distance fz),
                Text (sp_q p), Integer (max_distance fz),
                Integer (sp_size p), Integer ((sp_page p - 1) * sp_size p)]))
      else
        Inr (PlainSearchSQL,
          [Text (sp_q p), Text (sp_q p),
           Integer (sp_size p), Integer ((sp_page p - 1) * sp_size p)]))"

definition build_count_query :: "params \<Rightarrow> bool \<Rightarrow> error + statement \<times> sqlval list" where
  "build_count_query p is_fuzzy =
     (if is_fuzzy then
        (case get_fuzzy_config p of
           Inl e \<Rightarrow> Inl e
         | Inr fz \<Rightarrow>
             Inr (FuzzyCountSQL,
               [Text (sp_q p), Text (sp_q p),
                Text (sp_q p), Float (similarity_threshold fz),
                Text (sp_q p), Float (similarity_threshold fz),
                Text (sp_q p), Integer (max_distance fz),
                Text (sp_q p), Integer (max_distance fz)]))
      else Inr (PlainCountSQL, [Text (sp_q p)]))"

text \<open>Building a statement and passing it to \<^verbatim>\<open>cur.execute\<close>.\<close>

definition execute_built ::
  "pg \<Rightarrow> formula_row list \<Rightarrow> error + statement \<times> sqlval list \<Rightarrow> error + resultset" where
  "execute_built srv tbl b = (case b of Inl e \<Rightarrow> Inl e | Inr qp \<Rightarrow> cur_execute srv tbl qp)"

section \<open>FormulaRepository\<close>

record Formula =
  formula_id :: string
  formula_name :: string
  formula_description :: "string option"
  formula_ingredients :: "(string \<times> rat) list"
  formula_mass :: rat

text \<open>\<^verbatim>\<open>Formula(id=row[0], name=row[1], description=row[2], ingredients=row[3], mass=row[4])\<close>\<close>

definition Formula_of_row :: "formula_row \<Rightarrow> Formula" where
  "Formula_of_row r =
     \<lparr>formula_id = col_id r, formula_name = col_name r,
      formula_description = col_description r,
      formula_ingredients = col_ingredients r, formula_mass = col_mass r\<rparr>"



section \<open>The application's exception handlers\<close>

text \<open>
  What a client receives for the outcome of a handler. A returned value is sent with the
  route's success status; an \<^verbatim>\<open>HTTPException\<close> goes through
  \<^verbatim>\<open>http_exception_handler\<close>, which answers with the exception's status and detail;
  every other exception goes through \<^verbatim>\<open>general_exception_handler\<close>, which answers
  500.
\<close>

definition response_status :: "int \<Rightarrow> error + 'a \<Rightarrow> int" where
  "response_status ok r =
     (case r of Inr v \<Rightarrow> ok | Inl (HTTPException st d) \<Rightarrow> st | Inl e \<Rightarrow> 500)"

definition response_detail :: "error + 'a \<Rightarrow> string" where
  "response_detail r =
     (case r of Inr v \<Rightarrow> [] | Inl (HTTPException st d) \<Rightarrow> d
      | Inl e \<Rightarrow> ''An unexpected error occurred'')"

text \<open>Python's \<^verbatim>\<open>a // b\<close> on integers.\<close>

definition floordiv :: "int \<Rightarrow> int \<Rightarrow> error + int" where
  "floordiv a b = (if b = 0 then Inl ZeroDivisionError else Inr (a div b))"

section \<open>The handler search\_formulas\<close>

text \<open>A call of \<^verbatim>\<open>cur.execute\<close> made by the handler.\<close>

datatype db_call =
    Execute "statement \<times> sqlval list"
  | ExecuteIncluded "string list"

text \<open>
  An element of \<^verbatim>\<open>items\<close> in the handler's return value. The handler fills it as
  written in the source: \<^verbatim>\<open>date\<close> from \<^verbatim>\<open>row[1]\<close>, \<^verbatim>\<open>supplier\<close> from
  \<^verbatim>\<open>row[2]\<close>, \<^verbatim>\<open>pdf_path\<close> from \<^verbatim>\<open>row[3]\<close> and the ingredients relationship
  from \<^verbatim>\<open>row[5]\<close>.
\<close>

record formula_item =
  item_id :: string
  item_date :: string
  item_supplier :: "string option"
  item_pdf_path :: "(string \<times> rat) list"
  item_ingredients :: rat

record search_result =
  res_items :: "formula_item list"
  res_total_count :: nat
  res_page_count :: int
  res_page_size :: int
  res_current_page :: int

definition item_of_row :: "formula_row \<times> rat \<Rightarrow> formula_item" where
  "item_of_row row =
     \<lparr>item_id = col_id (fst row), item_date = col_name (fst row),
      item_supplier = col_description (fst row),
      item_pdf_path = col_ingredients (fst row), item_ingredients = snd row\<rparr>"

text \<open>
  \<^verbatim>\<open>cur.fetchall()\<close> and \<^verbatim>\<open>cur.fetchone()[0]\<close>. The search builder only returns
  search statements and the count builder only count statements, so the second case of
  each function does not arise.
\<close>

fun fetchall :: "resultset \<Rightarrow> (formula_row \<times> rat) list" where
  "fetchall (Rows rs) = rs"
| "fetchall (Count n) = []"

fun fetchone_count :: "resultset \<Rightarrow> nat" where
  "fetchone_count (Count n) = n"
| "fetchone_count (Rows rs) = 0"

text \<open>
  The identifiers collected for \<^verbatim>\<open>fetch_included_ingredients\<close>: the keys of the
  \<^verbatim>\<open>ingredients\<close> column of the rows of the page.
\<close>

definition included_ids :: "(formula_row \<times> rat) list \<Rightarrow> string list" where
  "included_ids rows = remdups (concat (map (\<lambda>row. map fst (col_ingredients (fst row))) rows))"

text \<open>
  The body of the \<^verbatim>\<open>try\<close> block of \<^verbatim>\<open>search_formulas\<close>, with the value \<open>fz\<close> of
  \<^verbatim>\<open>params.fuzzy\<close>. It returns the outcome and the calls of \<^verbatim>\<open>cur.execute\<close> made.
\<close>

definition search_formulas_try ::
  "pg \<Rightarrow> database \<Rightarrow> params \<Rightarrow> FuzzyConfig option
     \<Rightarrow> (error + search_result) \<times> db_call list" where
  "search_formulas_try srv db p fz =
     (case build_search_query p (fz \<noteq> None) of
        Inl e \<Rightarrow> (Inl e, [])
      | Inr sq \<Rightarrow>
          (case cur_execute srv (formulas_table db) sq of
             Inl e \<Rightarrow> (Inl e, [Execute sq])
           | Inr res \<Rightarrow>
               (let rows = fetchall res in
                case build_count_query p (fz \<noteq> None) of
                  Inl e \<Rightarrow> (Inl e, [Execute sq])
                | Inr cq \<Rightarrow>
                    (case cur_execute srv (formulas_table db) cq of
                       Inl e \<Rightarrow> (Inl e, [Execute sq, Execute cq])
                     | Inr cres \<Rightarrow>
                         (let total_count = fetchone_count cres;
                              calls = [Execute sq, Execute cq] @
                                (if sp_include p = Some ''ingredients'' \<and> included_ids rows \<noteq> []
                                 then [ExecuteIncluded (included_ids rows)] else [])
                          in case floordiv (int total_count + sp_size p - 1) (sp_size p) of
                               Inl e \<Rightarrow> (Inl e, calls)
                             | Inr page_count \<Rightarrow>
                                 (Inr \<lparr>res_items = map item_of_row rows,
                                       res_total_count = total_count,
                                       res_page_count = page_count,
                                       res_page_size = sp_size p,
                                       res_current_page = sp_page p\<rparr>, calls))))))"

text \<open>
  \<^verbatim>\<open>search_formulas(params)\<close>. The first statement of the handler is a logging call
  whose argument evaluates \<^verbatim>\<open>params.fuzzy is not None\<close>; it stands before the
  \<^verbatim>\<open>try\<close> block, so an exception raised there leaves the handler as it is. Every
  exception of the \<^verbatim>\<open>try\<close> block becomes
  \<^verbatim>\<open>HTTPException(500, "Failed to search formulas")\<close>.
\<close>

definition search_formulas ::
  "pg \<Rightarrow> database \<Rightarrow> params \<Rightarrow> (error + search_result) \<times> db_call list" where
  "search_formulas srv db p =
     (case get_fuzzy p of
        Inl e \<Rightarrow> (Inl e, [])
      | Inr fz \<Rightarrow>
          (case search_formulas_try srv db p fz of
             (Inl e, calls) \<Rightarrow> (Inl (HTTPException 500 ''Failed to search formulas''), calls)
           | (Inr res, calls) \<Rightarrow> (Inr res, calls)))"

section \<open>The handler search\_ingredients\<close>

record ingredient_result =
  ires_items :: "ingredient_row list"
  ires_total_count :: nat
  ires_page_count :: int
  ires_page_size :: int
  ires_current_page :: int
  ires_search_term :: string

text \<open>\<^verbatim>\<open>q or search\<close>: the first operand unless it is \<^verbatim>\<open>None\<close> or empty.\<close>

definition py_or :: "string option \<Rightarrow> string option \<Rightarrow> string option" where
  "py_or a b = (case a of None \<Rightarrow> b | Some s \<Rightarrow> if s = [] then b else Some s)"

text \<open>\<^verbatim>\<open>WHERE name ILIKE pattern OR unit ILIKE pattern\<close>\<close>

definition matching_ingredients :: "pg \<Rightarrow> ingredient_row list \<Rightarrow> string \<Rightarrow> ingredient_row list" where
  "matching_ingredients srv tbl pattern =
     filter (\<lambda>r. ilike srv (ing_name r) pattern \<or> ilike srv (ing_unit r) pattern) tbl"

text \<open>
  The body of the \<^verbatim>\<open>try\<close> block. \<^verbatim>\<open>ORDER BY name\<close> follows the collation of the
  database; the model orders names as strings of characters.
\<close>

definition search_ingredients_try ::
  "pg \<Rightarrow> database \<Rightarrow> string option \<Rightarrow> string option \<Rightarrow> int \<Rightarrow> int
     \<Rightarrow> error + ingredient_result" where
  "search_ingredients_try srv db q search page sz =
     (case py_or q search of
        None \<Rightarrow> Inl (HTTPException 400 ''Search term is required. Use 'q' or 'search' parameter.'')
      | Some search_term \<Rightarrow>
          if search_term = [] then
            Inl (HTTPException 400 ''Search term is required. Use 'q' or 'search' parameter.'')
          else
            (let search_pattern = ''%'' @ search_term @ ''%'';
                 offset = (page - 1) * sz
             in case limit_offset sz offset
                       (sort_key ing_name
                          (matching_ingredients srv (ingredients_table db) search_pattern)) of
                  Inl e \<Rightarrow> Inl e
                | Inr rows \<Rightarrow>
                    (let total_count =
                           length (matching_ingredients srv (ingredients_table db) search_pattern)
                     in case floordiv (int total_count + sz - 1) sz of
                          Inl e \<Rightarrow> Inl e
                        | Inr page_count \<Rightarrow>
                            Inr \<lparr>ires_items = rows, ires_total_count = total_count,
                                 ires_page_count = page_count, ires_page_size = sz,
                                 ires_current_page = page,
                                 ires_search_term = search_term\<rparr>)))"

text \<open>
  The \<^verbatim>\<open>except\<close> clauses of \<^verbatim>\<open>search_ingredients\<close>, in their order. The last one,
  \<^verbatim>\<open>except Exception\<close>, also catches the \<^verbatim>\<open>HTTPException\<close> raised in the
  \<^verbatim>\<open>try\<close> block.
\<close>

fun search_ingredients_except :: "error \<Rightarrow> error" where
  "search_ingredients_except OperationalError = HTTPException 503 ''Database connection error''"
| "search_ingredients_except DataError = HTTPException 400 ''Invalid data format''"
| "search_ingredients_except ProgrammingError = HTTPException 500 ''Database programming error''"
| "search_ingredients_except e = HTTPException 500 ''An unexpected error occurred''"

definition search_ingredients ::
  "pg \<Rightarrow> database \<Rightarrow> string option \<Rightarrow> string option \<Rightarrow> int \<Rightarrow> int
     \<Rightarrow> error + ingredient_result" where
  "search_ingredients srv db q search page sz =
     (case search_ingredients_try srv db q search page sz of
        Inl e \<Rightarrow> Inl (search_ingredients_except e)
      | Inr res \<Rightarrow> Inr res)"

section \<open>Deleting ingredients\<close>

fun digit_char :: "nat \<Rightarrow> char" where
  "digit_char n =
     (if n = 0 then CHR ''0'' else if n = 1 then CHR ''1'' else if n = 2 then CHR ''2''
      else if n = 3 then CHR ''3'' else if n = 4 then CHR ''4'' else if n = 5 then CHR ''5''
      else if n = 6 then CHR ''6'' else if n = 7 then CHR ''7'' else if n = 8 then CHR ''8''
      else CHR ''9'')"

text \<open>\<^verbatim>\<open>str(n)\<close> for a natural number, as the f-string writes the count.\<close>

function str_nat :: "nat \<Rightarrow> string" where
  "str_nat n =
     (if n < 10 then [digit_char n] else str_nat (n div 10) @ [digit_char (n mod 10)])"
  by pat_completeness auto
termination
  by (relation "measure id") auto

text \<open>\<^verbatim>\<open>', '.join(xs)\<close>\<close>

fun join_comma :: "string list \<Rightarrow> string" where
  "join_comma [] = []"
| "join_comma [x] = x"
| "join_comma (x # y # ys) = x @ '', '' @ join_comma (y # ys)"

text \<open>The \<^verbatim>\<open>jsonb\<close> operator \<^verbatim>\<open>ingredients ? key\<close>.\<close>

definition jsonb_has_key :: "(string \<times> rat) list \<Rightarrow> string \<Rightarrow> bool" where
  "jsonb_has_key obj k = (k \<in> set (map fst obj))"

definition referencing_formulas :: "database \<Rightarrow> string \<Rightarrow> nat" where
  "referencing_formulas db ingredient_id =
     length (filter (\<lambda>f. jsonb_has_key (col_ingredients f) ingredient_id) (formulas_table db))"

text \<open>The \<^verbatim>\<open>try\<close> block of \<^verbatim>\<open>delete_ingredient\<close>.\<close>

definition delete_ingredient_try :: "database \<Rightarrow> string \<Rightarrow> (error + unit) \<times> database" where
  "delete_ingredient_try db ingredient_id =
     (if ingredient_id \<notin> set (map ing_id (ingredients_table db)) then
        (Inl (HTTPException 404 ''Ingredient not found''), db)
      else
        (let count = referencing_formulas db ingredient_id in
         if count > 0 then
           (Inl (HTTPException 400
              (''Cannot delete ingredient: it is used in '' @ str_nat count @ '' formula(s)'')), db)
         else
           (Inr (),
            db\<lparr>ingredients_table :=
                 filter (\<lambda>r. ing_id r \<noteq> ingredient_id) (ingredients_table db)\<rparr>)))"

text \<open>
  \<^verbatim>\<open>delete_ingredient(ingredient_id)\<close>: the single clause \<^verbatim>\<open>except Exception\<close>
  replaces every exception of the \<^verbatim>\<open>try\<close> block, the two \<^verbatim>\<open>HTTPException\<close>s
  raised there included, by \<^verbatim>\<open>HTTPException(500, "Failed to delete ingredient")\<close>.
\<close>

definition delete_ingredient :: "database \<Rightarrow> string \<Rightarrow> (error + unit) \<times> database" where
  "delete_ingredient db ingredient_id =
     (case delete_ingredient_try db ingredient_id of
        (Inl e, db') \<Rightarrow> (Inl (HTTPException 500 ''Failed to delete ingredient''), db')
      | (Inr u, db') \<Rightarrow> (Inr u, db'))"

text \<open>
  \<^verbatim>\<open>bulk_delete_ingredients(payload)\<close> with the identifiers of \<^verbatim>\<open>payload.data\<close>.
  An empty list gives the statement \<^verbatim>\<open>... IN ()\<close>, a syntax error. The handler looks
  the identifiers up, answers 404 when one is missing and deletes them otherwise; it does
  not consult the table of formulas. Its \<^verbatim>\<open>except\<close> clause raises the exception
  again unchanged. The order of the missing identifiers in the message is the order of a
  Python set; the model lists them in the order of the request. The result is
  \<^verbatim>\<open>deleted_count\<close>.
\<close>

definition bulk_delete_ingredients ::
  "database \<Rightarrow> string list \<Rightarrow> (error + nat) \<times> database" where
  "bulk_delete_ingredients db ingredient_ids =
     (if ingredient_ids = [] then (Inl ProgrammingError, db)
      else
        (let existing_ids = filter (\<lambda>i. i \<in> set ingredient_ids) (map ing_id (ingredients_table db));
             missing_ids = filter (\<lambda>i. i \<notin> set existing_ids) (remdups ingredient_ids)
         in if missing_ids \<noteq> [] then
              (Inl (HTTPException 404 (''Ingredients not found: '' @ join_comma missing_ids)), db)
            else
              (Inr (length ingredient_ids),
               db\<lparr>ingredients_table :=
                    filter (\<lambda>r. ing_id r \<notin> set ingredient_ids) (ingredients_table db)\<rparr>)))"

section \<open>FormulaRepository: create and get\_by\_id\<close>

text \<open>
  \<^verbatim>\<open>json.dumps(formula.ingredients)\<close> stored through \<^verbatim>\<open>%s::jsonb\<close>. A Python
  dictionary is a list of members with distinct keys, in insertion order. The
  \<^verbatim>\<open>jsonb\<close> type keeps the members of an object ordered by the length of the key and
  then by its bytes, whatever the order of the text was; the driver reads the column back
  as a dictionary in that order.
\<close>

definition jsonb_of_dict :: "(string \<times> rat) list \<Rightarrow> (string \<times> rat) list" where
  "jsonb_of_dict d = sort_key (\<lambda>kv. (length (fst kv), fst kv)) d"

text \<open>
  Modelled from the spec: the declaration of the table \<^verbatim>\<open>formulas\<close> is not part of
  the sources. The spec gives a formula a unique identifier, so an \<^verbatim>\<open>INSERT\<close> of an
  identifier that the table holds is an integrity error; and it gives the table a
  precomputed search vector over name and description, which the server function
  \<open>make_vector\<close> (a parameter) computes on insertion.
\<close>

definition insert_formula ::
  "(string \<Rightarrow> string option \<Rightarrow> tsvector) \<Rightarrow> formula_row list \<Rightarrow> string \<Rightarrow> string
     \<Rightarrow> string option \<Rightarrow> (string \<times> rat) list \<Rightarrow> rat \<Rightarrow> error + formula_row list" where
  "insert_formula make_vector tbl i n d ings m =
     (if i \<in> set (map col_id tbl) then Inl IntegrityError
      else Inr (tbl @
        [\<lparr>col_id = i, col_name = n, col_description = d, col_ingredients = ings,
          col_mass = m, col_search_vector = make_vector n d\<rparr>]))"

text \<open>
  \<^verbatim>\<open>FormulaRepository.create(formula)\<close>: one \<^verbatim>\<open>INSERT\<close>; a database error is
  logged and raised again, otherwise the argument is returned. The result carries the
  table after the call.
\<close>

definition FormulaRepository_create ::
  "(string \<Rightarrow> string option \<Rightarrow> tsvector) \<Rightarrow> formula_row list \<Rightarrow> Formula
     \<Rightarrow> error + Formula \<times> formula_row list" where
  "FormulaRepository_create make_vector tbl formula =
     (case insert_formula make_vector tbl (formula_id formula) (formula_name formula)
             (formula_description formula) (jsonb_of_dict (formula_ingredients formula))
             (formula_mass formula) of
        Inl e \<Rightarrow> Inl e
      | Inr tbl' \<Rightarrow> Inr (formula, tbl'))"

text \<open>
  \<^verbatim>\<open>FormulaRepository.get_by_id(formula_id)\<close>: \<^verbatim>\<open>fetchone\<close> on the rows with that
  identifier; \<^verbatim>\<open>None\<close> when there is none.
\<close>

definition FormulaRepository_get_by_id :: "formula_row list \<Rightarrow> string \<Rightarrow> Formula option" where
  "FormulaRepository_get_by_id tbl fid =
     (case filter (\<lambda>r. col_id r = fid) tbl of
        [] \<Rightarrow> None
      | row # rest \<Rightarrow> Some (Formula_of_row row))"

text \<open>Equality of two Python dictionaries: the same keys with the same values.\<close>

definition dict_eq :: "(string \<times> rat) list \<Rightarrow> (string \<times> rat) list \<Rightarrow> bool" where
  "dict_eq a b = (map_of a = map_of b)"

section \<open>InvoiceRepository.create\<close>

type_synonym bytes = "nat list"

record 'a Invoice =
  invoice_id :: string
  invoice_date :: string
  invoice_supplier :: string
  invoice_pdf_path :: string
  invoice_ingredients :: 'a

text \<open>
  What the method does to the file system and to the table \<^verbatim>\<open>invoices\<close>, in order.
\<close>

datatype event =
    MakeDirs string
  | OpenFile string
  | WriteFile string bytes
  | RemoveFile string
  | InsertInvoice string

record 'a world =
  files :: "string \<Rightarrow> bytes option"
  invoices_table :: "'a Invoice list"
  events :: "event list"

text \<open>
  The failures of the environment, given from outside: \<^verbatim>\<open>os.makedirs\<close>,
  \<^verbatim>\<open>open\<close> (no file is created), \<^verbatim>\<open>f.write\<close> (the file exists, empty) and the
  \<^verbatim>\<open>INSERT\<close> may each raise.
\<close>

record faults =
  makedirs_fault :: "error option"
  open_fault :: "error option"
  write_fault :: "error option"
  insert_fault :: "error option"

text \<open>\<^verbatim>\<open>os.path.isabs(p)\<close>\<close>

definition is_absolute :: "string \<Rightarrow> bool" where
  "is_absolute p = (p \<noteq> [] \<and> hd p = CHR ''/'')"

text \<open>\<^verbatim>\<open>os.path.join(a, b)\<close> on POSIX paths.\<close>

definition os_path_join :: "string \<Rightarrow> string \<Rightarrow> string" where
  "os_path_join a b =
     (if is_absolute b then b
      else if a = [] \<or> last a = CHR ''/'' then a @ b
      else a @ ''/'' @ b)"

text \<open>
  \<^verbatim>\<open>os.path.dirname(p)\<close>: the part up to the last slash, without trailing slashes
  unless it consists of slashes only.
\<close>

definition os_path_dirname :: "string \<Rightarrow> string" where
  "os_path_dirname p =
     (let head = rev (dropWhile (\<lambda>c. c \<noteq> CHR ''/'') (rev p)) in
      if head \<noteq> [] \<and> \<not> list_all (\<lambda>c. c = CHR ''/'') head
      then rev (dropWhile (\<lambda>c. c = CHR ''/'') (rev head))
      else head)"

text \<open>
  The \<^verbatim>\<open>try\<close> block of \<^verbatim>\<open>InvoiceRepository.create\<close>. \<^verbatim>\<open>os.makedirs\<close> of the
  empty path raises.
\<close>

definition create_try ::
  "string \<Rightarrow> faults \<Rightarrow> 'a Invoice \<Rightarrow> bytes \<Rightarrow> 'a world \<Rightarrow> (error + 'a Invoice) \<times> 'a world" where
  "create_try upload_dir flt invoice file w =
     (let file_path = os_path_join upload_dir (invoice_pdf_path invoice);
          dir = os_path_dirname file_path
      in if dir = [] then (Inl OSError, w)
         else case makedirs_fault flt of
           Some e \<Rightarrow> (Inl e, w)
         | None \<Rightarrow>
             (let w1 = w\<lparr>events := events w @ [MakeDirs dir]\<rparr> in
              case open_fault flt of
                Some e \<Rightarrow> (Inl e, w1)
              | None \<Rightarrow>
                  (let w2 = w1\<lparr>files := (files w1)(file_path \<mapsto> []),
                                events := events w1 @ [OpenFile file_path]\<rparr> in
                   case write_fault flt of
                     Some e \<Rightarrow> (Inl e, w2)
                   | None \<Rightarrow>
                       (let w3 = w2\<lparr>files := (files w2)(file_path \<mapsto> file),
                                     events := events w2 @ [WriteFile file_path file]\<rparr> in
                        case insert_fault flt of
                          Some e \<Rightarrow> (Inl e, w3)
                        | None \<Rightarrow>
                            (Inr invoice,
                             w3\<lparr>invoices_table := invoices_table w3 @ [invoice],
                                events := events w3 @ [InsertInvoice (invoice_id invoice)]\<rparr>)))))"

text \<open>
  \<^verbatim>\<open>InvoiceRepository.create(invoice, file)\<close>: on any exception of the \<^verbatim>\<open>try\<close>
  block, the file at \<^verbatim>\<open>file_path\<close> is removed if it exists and the exception is
  raised again.
\<close>

definition InvoiceRepository_create ::
  "string \<Rightarrow> faults \<Rightarrow> 'a Invoice \<Rightarrow> bytes \<Rightarrow> 'a world \<Rightarrow> (error + 'a Invoice) \<times> 'a world" where
  "InvoiceRepository_create upload_dir flt invoice file w =
     (let file_path = os_path_join upload_dir (invoice_pdf_path invoice) in
      case create_try upload_dir flt invoice file w of
        (Inr v, w') \<Rightarrow> (Inr v, w')
      | (Inl e, w') \<Rightarrow>
          (if files w' file_path \<noteq> None
           then (Inl e, w'\<lparr>files := (files w')(file_path := None),
                           events := events w' @ [RemoveFile file_path]\<rparr>)
           else (Inl e, w')))"

text \<open>
  The path that the handler \<^verbatim>\<open>create_invoice\<close> gives a new invoice:
  \<^verbatim>\<open>f"invoices/{uuid4()}.pdf"\<close>, for the generated identifier \<open>u\<close>.
\<close>

definition generated_pdf_path :: "string \<Rightarrow> string" where
  "generated_pdf_path u = ''invoices/'' @ u @ ''.pdf''"

section \<open>The search specification\<close>



section \<open>Example data\<close>

text \<open>
  A small server and database on which the theorems are instantiated. The server
  functions are simple stand-ins: a vector matches a query that is one of its words, the
  rank counts the occurrences, equal strings have similarity one and distance zero.
\<close>

definition example_server :: pg where
  "example_server =
     \<lparr>ts_match = (\<lambda>v q. q \<in> set v),
      ts_rank_cd = (\<lambda>v q. of_nat (length (filter (\<lambda>w. w = q) v))),
      similarity = (\<lambda>a b. if a = b then 1 else 0),
      levenshtein = (\<lambda>a b. if a = b then 0 else int (max (length a) (length b))),
      lower = (\<lambda>a. a),
      ilike = (\<lambda>s pat. pat = ''%'' @ s @ ''%'')\<rparr>"

definition example_make_vector :: "string \<Rightarrow> string option \<Rightarrow> tsvector" where
  "example_make_vector n d = (case d of None \<Rightarrow> [n] | Some t \<Rightarrow> [n, t])"

definition row_tea :: formula_row where
  "row_tea =
     \<lparr>col_id = ''f1'', col_name = ''tea'', col_description = Some ''green'',
      col_ingredients = [(''i1'', 60), (''i2'', 40)], col_mass = 100,
      col_search_vector = [''tea'', ''green'']\<rparr>"

definition row_mint :: formula_row where
  "row_mint =
     \<lparr>col_id = ''f2'', col_name = ''mint'', col_description = None,
      col_ingredients = [(''i2'', 100)], col_mass = 50,
      col_search_vector = [''mint'']\<rparr>"

definition row_chai :: formula_row where
  "row_chai =
     \<lparr>col_id = ''f3'', col_name = ''chai'', col_description = Some ''tea'',
      col_ingredients = [(''i1'', 100)], col_mass = 20,
      col_search_vector = [''chai'', ''tea'', ''tea'']\<rparr>"

definition example_formulas :: "formula_row list" where
  "example_formulas = [row_tea, row_mint, row_chai]"

definition example_ingredients :: "ingredient_row list" where
  "example_ingredients =
     [\<lparr>ing_id = ''i1'', ing_name = ''water'', ing_unit = ''ml'', ing_cost_per_unit = 1,
       ing_density = Some 1\<rparr>,
      \<lparr>ing_id = ''i2'', ing_name = ''leaf'', ing_unit = ''g'', ing_cost_per_unit = 3,
       ing_density = None\<rparr>,
      \<lparr>ing_id = ''i3'', ing_name = ''salt'', ing_unit = ''g'', ing_cost_per_unit = 2,
       ing_density = None\<rparr>]"

definition example_db :: database where
  "example_db = \<lparr>ingredients_table = example_ingredients, formulas_table = example_formulas\<rparr>"

text \<open>The instance \<^verbatim>\<open>SearchParams(q="tea", page=1, size=10)\<close>.\<close>

definition example_params :: params where
  "example_params =
     \<lparr>sp_q = ''tea'', sp_page = 1, sp_size = 10, sp_include = None, sp_fuzzy = Missing\<rparr>"

text \<open>
  A formula with the mapping \<^verbatim>\<open>{"B": 40, "A": 60}\<close> and mass 100, whose identifier
  the example table does not hold.
\<close>

definition example_formula :: Formula where
  "example_formula =
     \<lparr>formula_id = ''f9'', formula_name = ''blend'', formula_description = None,
      formula_ingredients = [(''B'', 40), (''A'', 60)], formula_mass = 100\<rparr>"

text \<open>
  The upload directory that \<^verbatim>\<open>main.py\<close> configures, an invoice with a generated
  path, an empty world, and an environment in which only the \<^verbatim>\<open>INSERT\<close> fails.
\<close>

definition example_upload_dir :: string where
  "example_upload_dir = ''uploads/invoices''"

definition example_invoice :: "string list Invoice" where
  "example_invoice =
     \<lparr>invoice_id = ''v1'', invoice_date = ''2024-01-01'', invoice_supplier = ''acme'',
      invoice_pdf_path = generated_pdf_path ''u1'', invoice_ingredients = [''i1'']\<rparr>"

definition example_world :: "string list world" where
  "example_world = \<lparr>files = (\<lambda>p. None), invoices_table = [], events = []\<rparr>"

definition insert_fails :: faults where
  "insert_fails =
     \<lparr>makedirs_fault = None, open_fault = None, write_fault = None,
      insert_fault = Some OperationalError\<rparr>"

section \<open>Lemmas on selection, order and paging\<close>

lemma placeholders_plain_search: "count_placeholders (sql_text PlainSearchSQL) = 4"
  by simp

lemma placeholders_plain_count: "count_placeholders (sql_text PlainCountSQL) = 1"
  by simp

lemma placeholders_fuzzy_search: "count_placeholders (sql_text FuzzySearchSQL) = 14"
  by simp

lemma placeholders_fuzzy_count: "count_placeholders (sql_text FuzzyCountSQL) = 9"
  by simp




lemma limit_offset_ok:
  "0 \<le> lmt \<Longrightarrow> 0 \<le> ofs \<Longrightarrow> lmt \<le> bigint_max \<Longrightarrow> ofs \<le> bigint_max
    \<Longrightarrow> limit_offset lmt ofs xs = Inr (take (nat lmt) (drop (nat ofs) xs))"
  by (simp add: limit_offset_def)






section \<open>Plain search (claim C3)\<close>





section \<open>Formula round trip (claim C10)\<close>

lemma map_of_insort_key:
  "k \<notin> fst ` set xs \<Longrightarrow> map_of (insort_key g (k, v) xs) = (map_of xs)(k \<mapsto> v)"
proof (induction xs)
  case Nil
  then show ?case by simp
next
  case (Cons y ys)
  obtain k' v' where y: "y = (k', v')" by (cases y)
  from Cons.prems y have ne: "k \<noteq> k'" and nin: "k \<notin> fst ` set ys" by auto
  show ?case
  proof (cases "g (k, v) \<le> g y")
    case True
    then show ?thesis by (auto simp: y fun_eq_iff)
  next
    case False
    then show ?thesis
      using Cons.IH [OF nin] ne y by (auto simp: fun_eq_iff)
  qed
qed

lemma map_of_sort_key:
  "distinct (map fst xs) \<Longrightarrow> map_of (sort_key g xs) = map_of xs"
proof (induction xs)
  case Nil
  then show ?case by simp
next
  case (Cons x xs)
  obtain k v where x: "x = (k, v)" by (cases x)
  from Cons.prems x have "k \<notin> fst ` set (sort_key g xs)" by simp
  then show ?case using Cons x by (simp add: map_of_insort_key)
qed

lemma jsonb_of_dict_same_mapping:
  "distinct (map fst d) \<Longrightarrow> dict_eq (jsonb_of_dict d) d"
  by (simp add: dict_eq_def jsonb_of_dict_def map_of_sort_key)

lemma get_by_id_after_insert:
  assumes "insert_formula mv tbl i n d ings m = Inr tbl'"
  shows "FormulaRepository_get_by_id tbl' i =
    Some \<lparr>formula_id = i, formula_name = n, formula_description = d,
          formula_ingredients = ings, formula_mass = m\<rparr>"
proof -
  from assms have fresh: "i \<notin> set (map col_id tbl)"
    and tbl': "tbl' = tbl @ [\<lparr>col_id = i, col_name = n, col_description = d,
        col_ingredients = ings, col_mass = m, col_search_vector = mv n d\<rparr>]"
    by (auto simp: insert_formula_def split: if_splits)
  from fresh have "filter (\<lambda>r. col_id r = i) tbl = []"
    by (auto simp: filter_empty_conv)
  then show ?thesis
    by (simp add: FormulaRepository_get_by_id_def tbl' Formula_of_row_def)
qed

text \<open>
  C10. When \<^verbatim>\<open>FormulaRepository.create\<close> has succeeded for a formula whose
  ingredient-percentage mapping is a dictionary (distinct keys), \<^verbatim>\<open>get_by_id\<close> on
  the table after the call, with the identifier of that formula, returns a formula with
  the same mapping, as dictionaries are compared, and the same mass.
\<close>

theorem create_then_get_by_id:
  assumes "FormulaRepository_create mv tbl f = Inr (f', tbl')"
    and "distinct (map fst (formula_ingredients f))"
  shows "\<exists>g. FormulaRepository_get_by_id tbl' (formula_id f) = Some g
     \<and> dict_eq (formula_ingredients g) (formula_ingredients f)
     \<and> formula_mass g = formula_mass f"
proof -
  from assms(1) have ins: "insert_formula mv tbl (formula_id f) (formula_name f)
      (formula_description f) (jsonb_of_dict (formula_ingredients f)) (formula_mass f) = Inr tbl'"
    by (auto simp: FormulaRepository_create_def split: sum.splits)
  show ?thesis
    using get_by_id_after_insert [OF ins] jsonb_of_dict_same_mapping [OF assms(2)]
    by simp
qed

theorem create_then_get_by_id_witness:
  "FormulaRepository_create example_make_vector example_formulas example_formula
      = Inr (example_formula, example_formulas @
          [\<lparr>col_id = ''f9'', col_name = ''blend'', col_description = None,
            col_ingredients = [(''A'', 60), (''B'', 40)], col_mass = 100,
            col_search_vector = [''blend'']\<rparr>])
   \<and> distinct (map fst (formula_ingredients example_formula))
   \<and> (\<exists>g. FormulaRepository_get_by_id (example_formulas @
          [\<lparr>col_id = ''f9'', col_name = ''blend'', col_description = None,
            col_ingredients = [(''A'', 60), (''B'', 40)], col_mass = 100,
            col_search_vector = [''blend'']\<rparr>]) ''f9'' = Some g
        \<and> dict_eq (formula_ingredients g) [(''B'', 40), (''A'', 60)]
        \<and> formula_mass g = 100)"
proof -
  have le: "(length ''A'', ''A'') \<le> (length ''B'', ''B'')"
    by (simp add: less_eq_prod_def less_eq_char_def)
  have nle: "\<not> (length ''B'', ''B'') \<le> (length ''A'', ''A'')"
    by (simp add: less_eq_prod_def less_char_def less_eq_char_def)
  have c: "FormulaRepository_create example_make_vector example_formulas example_formula
      = Inr (example_formula, example_formulas @
          [\<lparr>col_id = ''f9'', col_name = ''blend'', col_description = None,
            col_ingredients = [(''A'', 60), (''B'', 40)], col_mass = 100,
            col_search_vector = [''blend'']\<rparr>])"
    using le nle
    by (simp add: FormulaRepository_create_def insert_formula_def example_formulas_def
        example_formula_def row_tea_def row_mint_def row_chai_def jsonb_of_dict_def
        example_make_vector_def)
  have d: "distinct (map fst (formula_ingredients example_formula))"
    by (simp add: example_formula_def)
  from create_then_get_by_id [OF c d] show ?thesis
    using c d by (simp add: example_formula_def)
qed

section \<open>Invoice creation (claim C9)\<close>

lemma os_path_join_under:
  "\<not> is_absolute b \<Longrightarrow> prefix a (os_path_join a b)"
  by (simp add: os_path_join_def)

lemma os_path_join_has_slash:
  assumes "a \<noteq> []" and "\<not> is_absolute b"
  shows "CHR ''/'' \<in> set (os_path_join a b)"
proof (cases "last a = CHR ''/''")
  case True
  with assms(1) have "CHR ''/'' \<in> set a"
    using last_in_set by metis
  with assms True show ?thesis by (simp add: os_path_join_def)
next
  case False
  with assms show ?thesis by (simp add: os_path_join_def)
qed

lemma os_path_dirname_nonempty:
  assumes "CHR ''/'' \<in> set p"
  shows "os_path_dirname p \<noteq> []"
proof -
  define head where "head = rev (dropWhile (\<lambda>c. c \<noteq> CHR ''/'') (rev p))"
  from assms have "\<not> (\<forall>c \<in> set (rev p). c \<noteq> CHR ''/'')" by simp
  then have "dropWhile (\<lambda>c. c \<noteq> CHR ''/'') (rev p) \<noteq> []"
    by (simp only: dropWhile_eq_Nil_conv not_False_eq_True)
  then have hne: "head \<noteq> []" by (simp add: head_def)
  show ?thesis
  proof (cases "list_all (\<lambda>c. c = CHR ''/'') head")
    case True
    with hne show ?thesis by (simp add: os_path_dirname_def head_def Let_def)
  next
    case False
    then have "\<not> (\<forall>c \<in> set (rev head). c = CHR ''/'')"
      by (simp add: list_all_iff)
    then have "dropWhile (\<lambda>c. c = CHR ''/'') (rev head) \<noteq> []"
      by (simp only: dropWhile_eq_Nil_conv not_False_eq_True)
    with False hne show ?thesis
      by (simp add: os_path_dirname_def head_def [symmetric] Let_def)
  qed
qed

lemma create_try_insert_only_last:
  assumes "create_try upload_dir flt invoice file w = (r, w')"
  shows "(\<exists>v. r = Inr v) \<or> invoices_table w' = invoices_table w"
  using assms
  by (auto simp: create_try_def Let_def split: if_splits option.splits)

lemma create_try_cases:
  assumes dir: "os_path_dirname (os_path_join upload_dir (invoice_pdf_path invoice)) \<noteq> []"
  shows "create_try upload_dir flt invoice file w =
    (let file_path = os_path_join upload_dir (invoice_pdf_path invoice);
         dir = os_path_dirname file_path
     in case makedirs_fault flt of
       Some e \<Rightarrow> (Inl e, w)
     | None \<Rightarrow>
       (case open_fault flt of
          Some e \<Rightarrow> (Inl e, w\<lparr>events := events w @ [MakeDirs dir]\<rparr>)
        | None \<Rightarrow>
          (case write_fault flt of
             Some e \<Rightarrow> (Inl e, w\<lparr>files := (files w)(file_path \<mapsto> []),
                 events := events w @ [MakeDirs dir, OpenFile file_path]\<rparr>)
           | None \<Rightarrow>
             (case insert_fault flt of
                Some e \<Rightarrow> (Inl e, w\<lparr>files := (files w)(file_path \<mapsto> file),
                    events := events w @ [MakeDirs dir, OpenFile file_path,
                      WriteFile file_path file]\<rparr>)
              | None \<Rightarrow> (Inr invoice, w\<lparr>files := (files w)(file_path \<mapsto> file),
                    invoices_table := invoices_table w @ [invoice],
                    events := events w @ [MakeDirs dir, OpenFile file_path,
                      WriteFile file_path file, InsertInvoice (invoice_id invoice)]\<rparr>)))))"
  using dir by (simp add: create_try_def Let_def split: option.splits)

text \<open>
  C9. \<^verbatim>\<open>InvoiceRepository.create\<close> with a non-empty upload directory and a relative
  path of the invoice, such as the generated one: the file path lies under the upload
  directory. When the call returns, the bytes were written to that path and the row was
  inserted after that, in this order, and the file holds the bytes. When the call raises,
  the table of invoices is unchanged and no file is left at the path. When the file
  system does not fail, the call returns the invoice if the insertion succeeds, and if
  the insertion fails, the written file is removed and the error of the insertion is
  raised.
\<close>

theorem invoice_create_writes_then_inserts:
  assumes "upload_dir \<noteq> []" and "\<not> is_absolute (invoice_pdf_path invoice)"
  shows "let file_path = os_path_join upload_dir (invoice_pdf_path invoice);
             dir = os_path_dirname file_path;
             (r, w') = InvoiceRepository_create upload_dir flt invoice file w
         in prefix upload_dir file_path
          \<and> (case r of
               Inr v \<Rightarrow> v = invoice
                 \<and> events w' = events w @ [MakeDirs dir, OpenFile file_path,
                      WriteFile file_path file, InsertInvoice (invoice_id invoice)]
                 \<and> files w' file_path = Some file
                 \<and> invoices_table w' = invoices_table w @ [invoice]
             | Inl e \<Rightarrow> invoices_table w' = invoices_table w \<and> files w' file_path = None)
          \<and> (makedirs_fault flt = None \<and> open_fault flt = None \<and> write_fault flt = None \<longrightarrow>
               (case insert_fault flt of
                  None \<Rightarrow> r = Inr invoice
                | Some e \<Rightarrow> r = Inl e
                    \<and> events w' = events w @ [MakeDirs dir, OpenFile file_path,
                         WriteFile file_path file, RemoveFile file_path]))"
proof -
  have under: "prefix upload_dir (os_path_join upload_dir (invoice_pdf_path invoice))"
    using assms(2) by (rule os_path_join_under)
  have dir: "os_path_dirname (os_path_join upload_dir (invoice_pdf_path invoice)) \<noteq> []"
    using assms by (intro os_path_dirname_nonempty os_path_join_has_slash)
  show ?thesis
    using under
    by (simp add: InvoiceRepository_create_def create_try_cases [OF dir] Let_def
        split: option.splits)
qed


theorem invoice_create_writes_then_inserts_witness:
  "example_upload_dir \<noteq> [] \<and> \<not> is_absolute (invoice_pdf_path example_invoice)
   \<and> fst (InvoiceRepository_create example_upload_dir insert_fails example_invoice
             [37, 80, 68, 70] example_world) = Inl OperationalError
   \<and> events (snd (InvoiceRepository_create example_upload_dir insert_fails example_invoice
             [37, 80, 68, 70] example_world))
       = [MakeDirs ''uploads/invoices/invoices'',
          OpenFile ''uploads/invoices/invoices/u1.pdf'',
          WriteFile ''uploads/invoices/invoices/u1.pdf'' [37, 80, 68, 70],
          RemoveFile ''uploads/invoices/invoices/u1.pdf'']
   \<and> files (snd (InvoiceRepository_create example_upload_dir insert_fails example_invoice
             [37, 80, 68, 70] example_world)) ''uploads/invoices/invoices/u1.pdf'' = None"
proof -
  have h1: "example_upload_dir \<noteq> []"
    by (simp add: example_upload_dir_def)
  have h2: "\<not> is_absolute (invoice_pdf_path example_invoice)"
    by (simp add: example_invoice_def generated_pdf_path_def is_absolute_def)
  have p: "os_path_join example_upload_dir (invoice_pdf_path example_invoice)
      = ''uploads/invoices/invoices/u1.pdf''"
    by (simp add: os_path_join_def example_upload_dir_def example_invoice_def
        generated_pdf_path_def is_absolute_def)
  have d: "os_path_dirname ''uploads/invoices/invoices/u1.pdf'' = ''uploads/invoices/invoices''"
    by (simp add: os_path_dirname_def)
  obtain r w' where R: "InvoiceRepository_create example_upload_dir insert_fails example_invoice
             [37, 80, 68, 70] example_world = (r, w')"
    by (cases "InvoiceRepository_create example_upload_dir insert_fails example_invoice
             [37, 80, 68, 70] example_world")
  have f: "makedirs_fault insert_fails = None \<and> open_fault insert_fails = None
      \<and> write_fault insert_fails = None \<and> insert_fault insert_fails = Some OperationalError"
    by (simp add: insert_fails_def)
  have e: "events example_world = []"
    by (simp add: example_world_def)
  from invoice_create_writes_then_inserts [OF h1 h2, of insert_fails "[37, 80, 68, 70]" example_world]
  have "r = Inl OperationalError
      \<and> events w' = [MakeDirs ''uploads/invoices/invoices'',
          OpenFile ''uploads/invoices/invoices/u1.pdf'',
          WriteFile ''uploads/invoices/invoices/u1.pdf'' [37, 80, 68, 70],
          RemoveFile ''uploads/invoices/invoices/u1.pdf'']
      \<and> files w' ''uploads/invoices/invoices/u1.pdf'' = None"
    by (auto simp: R p d f e Let_def)
  with h1 h2 R show ?thesis by simp
qed

section \<open>Fuzzy search (claims C1, C2 and C6)\<close>

text \<open>
  The fuzzy statements of \<^verbatim>\<open>main.py\<close> are studied with one parameter for each
  placeholder: the query for every text placeholder, the threshold for the two
  similarity comparisons and the maximal distance for the two distance comparisons. Two
  lemmas first record what the builders pass: for an object with a fuzzy configuration
  the list has one element more than the statement has placeholders (the line commented
  \<^verbatim>\<open>For tsquery\<close> holds \<^verbatim>\<open>params.q\<close> twice), so the driver refuses the call; for an
  instance of \<^verbatim>\<open>SearchParams\<close> the builders raise \<^verbatim>\<open>AttributeError\<close>.
\<close>

lemma fuzzy_search_query_rejected:
  assumes "sp_fuzzy p = Attr (Some fz)"
  shows "execute_built srv tbl (build_search_query p True) = Inl ProgrammingError"
  using assms
  by (simp add: execute_built_def build_search_query_def get_fuzzy_config_def cur_execute_def
      placeholders_fuzzy_search del: sql_text.simps)

lemma fuzzy_count_query_rejected:
  assumes "sp_fuzzy p = Attr (Some fz)"
  shows "execute_built srv tbl (build_count_query p True) = Inl ProgrammingError"
  using assms
  by (simp add: execute_built_def build_count_query_def get_fuzzy_config_def cur_execute_def
      placeholders_fuzzy_count del: sql_text.simps)

lemma fuzzy_without_config:
  assumes "sp_fuzzy p = Missing \<or> sp_fuzzy p = Attr None"
  shows "build_search_query p True = Inl AttributeError"
    and "build_count_query p True = Inl AttributeError"
  using assms
  by (auto simp: build_search_query_def build_count_query_def get_fuzzy_config_def)














section \<open>The handler search\_formulas (claims C4 and C8)\<close>

lemma SearchParams_no_fuzzy:
  assumes "SearchParams q page sz include = Inr p"
  shows "sp_fuzzy p = Missing"
  using assms by (auto simp: SearchParams_def split: option.splits if_splits)

lemma search_formulas_without_attribute:
  assumes "sp_fuzzy p = Missing"
  shows "search_formulas srv db p = (Inl AttributeError, [])"
  using assms by (simp add: search_formulas_def get_fuzzy_def)

lemma example_params_constructed: "SearchParams (Some ''tea'') 1 10 None = Inr example_params"
  by (simp add: SearchParams_def example_params_def)

text \<open>
  C4, as stated, fails. For the valid request \<^verbatim>\<open>q=tea, page=1, size=10\<close> the outcome
  of the handler is not the \<^verbatim>\<open>HTTPException\<close> of its \<^verbatim>\<open>except\<close> clause; and a
  request without \<^verbatim>\<open>q\<close> fails validation and raises no \<^verbatim>\<open>AttributeError\<close>.
\<close>

theorem search_formulas_not_caught_counterexample:
  "SearchParams (Some ''tea'') 1 10 None = Inr example_params
   \<and> fst (search_formulas example_server example_db example_params)
       \<noteq> Inl (HTTPException 500 ''Failed to search formulas'')
   \<and> SearchParams None 1 10 None = Inl ValidationError"
  using example_params_constructed
    search_formulas_without_attribute [of example_params example_server example_db]
  by (simp add: SearchParams_def example_params_def)

text \<open>
  C4, amended. For every request whose parameters pass the validation of
  \<^verbatim>\<open>SearchParams\<close>, the handler raises \<^verbatim>\<open>AttributeError\<close> on
  \<^verbatim>\<open>params.fuzzy\<close> before its \<^verbatim>\<open>try\<close> block: the exception leaves the handler
  as it is, no call of \<^verbatim>\<open>cur.execute\<close> is made, no result is shaped, and the
  application's general exception handler answers 500.
\<close>

theorem search_formulas_raises_before_try:
  assumes "SearchParams q page sz include = Inr p"
  shows "search_formulas srv db p = (Inl AttributeError, [])
    \<and> response_status 200 (fst (search_formulas srv db p)) = 500
    \<and> response_detail (fst (search_formulas srv db p)) = ''An unexpected error occurred''"
  using search_formulas_without_attribute [OF SearchParams_no_fuzzy [OF assms]]
  by (simp add: response_status_def response_detail_def)

theorem search_formulas_raises_before_try_witness:
  "SearchParams (Some ''tea'') 1 10 None = Inr example_params
   \<and> search_formulas example_server example_db example_params = (Inl AttributeError, [])
   \<and> response_status 200 (fst (search_formulas example_server example_db example_params)) = 500"
  using example_params_constructed
    search_formulas_raises_before_try [OF example_params_constructed, of example_server example_db]
  by blast

text \<open>
  C8. The request with the empty query string \<^verbatim>\<open>q=\<close> passes the validation of
  \<^verbatim>\<open>SearchParams\<close> and reaches the handler, which raises \<^verbatim>\<open>AttributeError\<close>
  without a database call; the answer has status 500, not a client error. The handler
  \<^verbatim>\<open>search_ingredients\<close> does test for an empty term and raises a 400 in its
  \<^verbatim>\<open>try\<close> block, which its own \<^verbatim>\<open>except Exception\<close> turns into a 500.
\<close>

theorem empty_query_reaches_handler:
  "SearchParams (Some []) 1 10 None = Inr (example_params\<lparr>sp_q := []\<rparr>)
   \<and> search_formulas example_server example_db (example_params\<lparr>sp_q := []\<rparr>)
       = (Inl AttributeError, [])
   \<and> response_status 200
        (fst (search_formulas example_server example_db (example_params\<lparr>sp_q := []\<rparr>))) = 500
   \<and> search_ingredients_try example_server example_db (Some []) None 1 10
       = Inl (HTTPException 400 ''Search term is required. Use 'q' or 'search' parameter.'')
   \<and> search_ingredients example_server example_db (Some []) None 1 10
       = Inl (HTTPException 500 ''An unexpected error occurred'')"
proof -
  have a: "SearchParams (Some []) 1 10 None = Inr (example_params\<lparr>sp_q := []\<rparr>)"
    by (simp add: SearchParams_def example_params_def)
  have b: "search_formulas example_server example_db (example_params\<lparr>sp_q := []\<rparr>)
       = (Inl AttributeError, [])"
    by (rule search_formulas_without_attribute) (simp add: example_params_def)
  have c: "search_ingredients_try example_server example_db (Some []) None 1 10
       = Inl (HTTPException 400 ''Search term is required. Use 'q' or 'search' parameter.'')"
    by (simp add: search_ingredients_try_def py_or_def)
  have d: "search_ingredients example_server example_db (Some []) None 1 10
       = Inl (HTTPException 500 ''An unexpected error occurred'')"
    by (simp add: search_ingredients_def c)
  from a b c d show ?thesis by (simp add: response_status_def)
qed

section \<open>Paging (claim C5)\<close>

lemma page_count_is_ceiling:
  assumes "1 \<le> (sz::int)"
  shows "(int n + sz - 1) div sz = \<lceil>rat_of_nat n / rat_of_int sz\<rceil>"
proof -
  define z where "z = (int n + sz - 1) div sz"
  have pos: "0 < sz" using assms by simp
  have eq: "int n + sz - 1 = sz * z + (int n + sz - 1) mod sz"
    by (simp add: z_def)
  have m0: "0 \<le> (int n + sz - 1) mod sz" using pos by simp
  have m1: "(int n + sz - 1) mod sz < sz" using pos by simp
  have up: "int n \<le> z * sz"
  proof -
    from eq m1 have "int n + sz - 1 < sz * z + sz" by linarith
    then have "int n - 1 < sz * z" by linarith
    then show ?thesis by (simp add: mult.commute)
  qed
  have lo: "(z - 1) * sz < int n"
  proof -
    from eq m0 have "sz * z \<le> int n + sz - 1" by linarith
    then have "sz * z - sz < int n" by linarith
    then show ?thesis by (simp add: algebra_simps)
  qed
  have rpos: "0 < rat_of_int sz" using pos by simp
  have a: "rat_of_nat n / rat_of_int sz \<le> rat_of_int z"
  proof -
    from up have "rat_of_int (int n) \<le> rat_of_int (z * sz)"
      by (simp only: of_int_le_iff)
    then have "rat_of_nat n \<le> rat_of_int z * rat_of_int sz" by simp
    then show ?thesis using rpos by (simp add: pos_divide_le_eq)
  qed
  have b: "rat_of_int z - 1 < rat_of_nat n / rat_of_int sz"
  proof -
    from lo have "rat_of_int ((z - 1) * sz) < rat_of_int (int n)"
      by (simp only: of_int_less_iff)
    then have "(rat_of_int z - 1) * rat_of_int sz < rat_of_nat n" by simp
    then show ?thesis using rpos by (simp add: pos_less_divide_eq)
  qed
  from a b have "\<lceil>rat_of_nat n / rat_of_int sz\<rceil> = z"
    by (intro ceiling_unique) auto
  then show ?thesis by (simp add: z_def)
qed

lemma page_beyond_last_is_empty:
  assumes "1 \<le> (sz::int)" and "(int (length xs) + sz - 1) div sz < page"
  shows "take (nat sz) (drop (nat ((page - 1) * sz)) xs) = []"
proof -
  define z where "z = (int (length xs) + sz - 1) div sz"
  have pos: "0 < sz" using assms(1) by simp
  have "int (length xs) + sz - 1 = sz * z + (int (length xs) + sz - 1) mod sz"
    by (simp add: z_def)
  moreover have "(int (length xs) + sz - 1) mod sz < sz" using pos by simp
  ultimately have "int (length xs) + sz - 1 < sz * z + sz" by linarith
  then have up: "int (length xs) \<le> sz * z" by linarith
  from assms(2) have "z \<le> page - 1" by (simp add: z_def)
  then have "sz * z \<le> sz * (page - 1)" using pos by simp
  with up have "int (length xs) \<le> (page - 1) * sz" by (simp add: mult.commute)
  then have "length xs \<le> nat ((page - 1) * sz)" by linarith
  then show ?thesis by simp
qed

lemma search_ingredients_try_ok:
  assumes "search_term \<noteq> []" and "1 \<le> page" and "1 \<le> sz"
    and "sz \<le> bigint_max" and "(page - 1) * sz \<le> bigint_max"
    and "pat = CHR ''%'' # search_term @ ''%''"
    and "ms = matching_ingredients srv (ingredients_table db) pat"
  shows "search_ingredients_try srv db (Some search_term) search page sz
      = Inr \<lparr>ires_items = take (nat sz) (drop (nat ((page - 1) * sz)) (sort_key ing_name ms)),
             ires_total_count = length ms,
             ires_page_count = (int (length ms) + sz - 1) div sz, ires_page_size = sz,
             ires_current_page = page, ires_search_term = search_term\<rparr>"
proof -
  have sz0: "0 \<le> sz" "sz \<noteq> 0" using assms(3) by simp_all
  have off: "0 \<le> (page - 1) * sz" using assms(2,3) by simp
  have lim: "limit_offset sz ((page - 1) * sz) (sort_key ing_name ms)
      = Inr (take (nat sz) (drop (nat ((page - 1) * sz)) (sort_key ing_name ms)))"
    using sz0(1) off assms(4,5) by (rule limit_offset_ok)
  show ?thesis
    using assms(1) sz0(2) lim
    by (simp add: search_ingredients_try_def py_or_def Let_def floordiv_def
        assms(6) [symmetric] assms(7) [symmetric])
qed

lemma search_ingredients_paging:
  assumes "search_term \<noteq> []" and "1 \<le> page" and "1 \<le> sz"
    and "sz \<le> bigint_max" and "(page - 1) * sz \<le> bigint_max"
  shows "\<exists>res. search_ingredients srv db (Some search_term) search page sz = Inr res
     \<and> ires_items res = take (nat sz) (drop (nat ((page - 1) * sz))
          (sort_key ing_name
             (matching_ingredients srv (ingredients_table db) (''%'' @ search_term @ ''%''))))
     \<and> ires_total_count res
          = length (matching_ingredients srv (ingredients_table db) (''%'' @ search_term @ ''%''))
     \<and> ires_page_count res = \<lceil>rat_of_nat (ires_total_count res) / rat_of_int sz\<rceil>
     \<and> (ires_page_count res < page \<longrightarrow> ires_items res = [])"
proof -
  define ms where "ms = matching_ingredients srv (ingredients_table db) (''%'' @ search_term @ ''%'')"
  have t: "search_ingredients_try srv db (Some search_term) search page sz
      = Inr \<lparr>ires_items = take (nat sz) (drop (nat ((page - 1) * sz)) (sort_key ing_name ms)),
             ires_total_count = length ms,
             ires_page_count = (int (length ms) + sz - 1) div sz, ires_page_size = sz,
             ires_current_page = page, ires_search_term = search_term\<rparr>"
    by (rule search_ingredients_try_ok [OF assms refl]) (simp add: ms_def)
  have e: "(int (length ms) + sz - 1) div sz < page \<longrightarrow>
      take (nat sz) (drop (nat ((page - 1) * sz)) (sort_key ing_name ms)) = []"
    using page_beyond_last_is_empty [OF assms(3), of "sort_key ing_name ms" page] by simp
  have c: "(int (length ms) + sz - 1) div sz = \<lceil>rat_of_nat (length ms) / rat_of_int sz\<rceil>"
    using assms(3) by (rule page_count_is_ceiling)
  show ?thesis
    unfolding ms_def [symmetric] search_ingredients_def t
    using e c by simp
qed

text \<open>
  C5. The formula search for \<^verbatim>\<open>q=tea, page=5, size=10\<close>, a page beyond the last
  one, is answered with an error of status 500 and not with an empty page. The ingredient
  search for page 5 of \<^verbatim>\<open>water\<close> returns the empty list; the lemma
  \<open>search_ingredients_paging\<close> above gives offset, limit, page count and the empty page
  for every ingredient search whose size and offset lie in the range of \<^verbatim>\<open>bigint\<close>.
\<close>

theorem formula_search_page_is_an_error:
  "SearchParams (Some ''tea'') 5 10 None = Inr (example_params\<lparr>sp_page := 5\<rparr>)
   \<and> fst (search_formulas example_server example_db (example_params\<lparr>sp_page := 5\<rparr>))
       = Inl AttributeError
   \<and> response_status 200
        (fst (search_formulas example_server example_db (example_params\<lparr>sp_page := 5\<rparr>))) = 500
   \<and> map_sum id ires_items (search_ingredients example_server example_db (Some ''water'') None 5 10)
       = Inr []"
proof -
  have a: "SearchParams (Some ''tea'') 5 10 None = Inr (example_params\<lparr>sp_page := 5\<rparr>)"
    by (simp add: SearchParams_def example_params_def)
  have b: "search_formulas example_server example_db (example_params\<lparr>sp_page := 5\<rparr>)
       = (Inl AttributeError, [])"
    by (rule search_formulas_without_attribute) (simp add: example_params_def)
  have c: "map_sum id ires_items
      (search_ingredients example_server example_db (Some ''water'') None 5 10) = Inr []"
    by (simp add: search_ingredients_def search_ingredients_try_def py_or_def floordiv_def
        limit_offset_def bigint_max_def matching_ingredients_def example_db_def example_ingredients_def
        example_server_def)
  from a b c show ?thesis by (simp add: response_status_def)
qed

section \<open>Deleting ingredients (claim C7)\<close>

lemma delete_unreferenced_ingredient:
  assumes "ingredient_id \<in> set (map ing_id (ingredients_table db))"
    and "referencing_formulas db ingredient_id = 0"
  shows "delete_ingredient db ingredient_id =
    (Inr (), db\<lparr>ingredients_table :=
       filter (\<lambda>r. ing_id r \<noteq> ingredient_id) (ingredients_table db)\<rparr>)"
  using assms by (simp add: delete_ingredient_def delete_ingredient_try_def)

lemma delete_referenced_ingredient:
  assumes "ingredient_id \<in> set (map ing_id (ingredients_table db))"
    and "0 < referencing_formulas db ingredient_id"
  shows "delete_ingredient db ingredient_id =
    (Inl (HTTPException 500 ''Failed to delete ingredient''), db)"
  using assms by (simp add: delete_ingredient_def delete_ingredient_try_def Let_def)

lemma bulk_delete_ignores_formulas:
  assumes "ingredient_ids \<noteq> []"
    and "set ingredient_ids \<subseteq> set (map ing_id (ingredients_table db))"
  shows "bulk_delete_ingredients db ingredient_ids =
    (Inr (length ingredient_ids),
     db\<lparr>ingredients_table :=
        filter (\<lambda>r. ing_id r \<notin> set ingredient_ids) (ingredients_table db)\<rparr>)"
proof -
  have "filter (\<lambda>i. i \<notin> set (filter (\<lambda>i. i \<in> set ingredient_ids)
            (map ing_id (ingredients_table db)))) (remdups ingredient_ids) = []"
    using assms(2) by (auto simp: filter_empty_conv)
  then show ?thesis
    using assms(1) by (simp add: bulk_delete_ingredients_def Let_def)
qed

lemma str_nat_2: "str_nat 2 = ''2''"
  by (simp add: str_nat.simps)

text \<open>
  C7. The ingredient \<^verbatim>\<open>i1\<close> of the example database is referenced by two formulas.
  The \<^verbatim>\<open>try\<close> block of \<^verbatim>\<open>delete_ingredient\<close> raises a 400 whose message
  reports the count, and the handler replaces it by a 500 with the message
  \<^verbatim>\<open>Failed to delete ingredient\<close>; the ingredient stays. \<^verbatim>\<open>bulk_delete_ingredients\<close>
  for the same identifier succeeds with \<^verbatim>\<open>deleted_count\<close> 1 and removes the
  ingredient.
\<close>

theorem referenced_ingredient_deletion:
  "referencing_formulas example_db ''i1'' = 2
   \<and> delete_ingredient_try example_db ''i1''
       = (Inl (HTTPException 400 ''Cannot delete ingredient: it is used in 2 formula(s)''),
          example_db)
   \<and> delete_ingredient example_db ''i1''
       = (Inl (HTTPException 500 ''Failed to delete ingredient''), example_db)
   \<and> fst (bulk_delete_ingredients example_db [''i1'']) = Inr 1
   \<and> map ing_id (ingredients_table (snd (bulk_delete_ingredients example_db [''i1''])))
       = [''i2'', ''i3'']"
proof -
  have r: "referencing_formulas example_db ''i1'' = 2"
    by (simp add: referencing_formulas_def jsonb_has_key_def example_db_def example_formulas_def
        row_tea_def row_mint_def row_chai_def)
  have m: "''i1'' \<in> set (map ing_id (ingredients_table example_db))"
    by (simp add: example_db_def example_ingredients_def)
  have t: "delete_ingredient_try example_db ''i1''
       = (Inl (HTTPException 400 ''Cannot delete ingredient: it is used in 2 formula(s)''),
          example_db)"
    using m by (simp add: delete_ingredient_try_def r str_nat_2)
  have d: "delete_ingredient example_db ''i1''
       = (Inl (HTTPException 500 ''Failed to delete ingredient''), example_db)"
    by (simp add: delete_ingredient_def t)
  have b: "bulk_delete_ingredients example_db [''i1''] =
    (Inr (length [''i1'']),
     example_db\<lparr>ingredients_table :=
        filter (\<lambda>r. ing_id r \<notin> set [''i1'']) (ingredients_table example_db)\<rparr>)"
    using m by (intro bulk_delete_ignores_formulas) simp_all
  have b': "map ing_id (ingredients_table (snd (bulk_delete_ingredients example_db [''i1''])))
       = [''i2'', ''i3'']"
    unfolding b by (simp add: example_db_def example_ingredients_def)
  from r t d b b' show ?thesis by simp
qed

end
